theory Spec2Isabelle
  imports Main
begin

section \<open>Values of the JavaScript runtime\<close>

text \<open>
  The package \<open>@r1x/agent-auth\<close> (file \<open>packages/agent-auth/src/index.ts\<close>) reads its
  tokens out of \<open>await response.json()\<close>, whose static type is \<open>any\<close>: at run time the
  fields \<open>accessToken\<close> and \<open>refreshToken\<close> of the class hold whatever JSON value the
  identity service sent, or \<open>undefined\<close> when the property is missing. The model
  therefore keeps JavaScript values, their truthiness (\<open>if (x)\<close>), property access
  (\<open>x.name\<close>), nullish coalescing (\<open>x ?? d\<close>) and template conversion (\<open>`${x}`\<close>).
  JSON numbers are kept as integers; the code only tests them for truthiness or prints
  them in a template literal.
\<close>

datatype jsval =
    JUndefined
  | JNull
  | JBool bool
  | JNumber int
  | JString string
  | JArray "jsval list"
  | JObject "(string \<times> jsval) list"

datatype error =
    Error string       \<comment> \<open>\<open>new Error(message)\<close> thrown by the package itself\<close>
  | TypeError          \<comment> \<open>property read on \<open>null\<close> or \<open>undefined\<close>\<close>
  | SyntaxError        \<comment> \<open>\<open>response.json()\<close> rejecting: the body is not JSON\<close>
  | Thrown string      \<comment> \<open>whatever an injected capability (transport, signer) threw\<close>

fun truthy :: "jsval \<Rightarrow> bool" where
  "truthy JUndefined = False"
| "truthy JNull = False"
| "truthy (JBool b) = b"
| "truthy (JNumber n) = (n \<noteq> 0)"
| "truthy (JString s) = (s \<noteq> [])"
| "truthy (JArray xs) = True"
| "truthy (JObject kvs) = True"

text \<open>
  A \<open>JObject\<close> lists the properties of a parsed object, each key once. The code reads
  four properties only (\<open>id\<close>, \<open>payload\<close>, \<open>accessToken\<close>, \<open>refreshToken\<close>); none of them
  exists on a boolean, a number, a string or an array, where the read gives \<open>undefined\<close>,
  and on \<open>null\<close> or \<open>undefined\<close> the read throws a \<open>TypeError\<close>.
\<close>

fun get_prop :: "jsval \<Rightarrow> string \<Rightarrow> error + jsval" where
  "get_prop JUndefined k = Inl TypeError"
| "get_prop JNull k = Inl TypeError"
| "get_prop (JObject kvs) k = Inr (case map_of kvs k of None \<Rightarrow> JUndefined | Some v \<Rightarrow> v)"
| "get_prop v k = Inr JUndefined"

fun nullish :: "jsval \<Rightarrow> jsval \<Rightarrow> jsval" where
  "nullish JUndefined d = d"
| "nullish JNull d = d"
| "nullish v d = v"

text \<open>
  The string that a template literal prints for a value: decimal digits for an integer,
  the elements joined by commas for an array (\<open>null\<close> and \<open>undefined\<close> elements print
  as nothing), \<open>[object Object]\<close> for an object.
\<close>

fun digits :: "nat \<Rightarrow> string" where
  "digits n = (if n < 10 then [char_of (48 + n)]
               else digits (n div 10) @ [char_of (48 + n mod 10)])"

fun join_comma :: "string list \<Rightarrow> string" where
  "join_comma [] = []"
| "join_comma [x] = x"
| "join_comma (x # y # ys) = x @ '','' @ join_comma (y # ys)"

fun toString :: "jsval \<Rightarrow> string" where
  "toString JUndefined = ''undefined''"
| "toString JNull = ''null''"
| "toString (JBool b) = (if b then ''true'' else ''false'')"
| "toString (JNumber n) = (if n < 0 then ''-'' @ digits (nat (- n)) else digits (nat n))"
| "toString (JString s) = s"
| "toString (JArray xs) =
     join_comma (map (\<lambda>x. case x of JUndefined \<Rightarrow> [] | JNull \<Rightarrow> [] | _ \<Rightarrow> toString x) xs)"
| "toString (JObject kvs) = ''[object Object]''"

definition of_opt :: "string option \<Rightarrow> jsval" where
  "of_opt x = (case x of None \<Rightarrow> JUndefined | Some s \<Rightarrow> JString s)"

section \<open>The three ports: transport, signer, storage\<close>

text \<open>
  A request is what the code hands to \<open>fetchImpl\<close>: the URL and the init object. The
  field \<open>body\<close> is the value given to \<open>JSON.stringify\<close>, and \<open>http_method\<close> is the
  \<open>method\<close> of the init object (\<open>None\<close> when the code gives none). A response is read through
  \<open>ok\<close>, \<open>statusText\<close> and \<open>json()\<close>; \<open>json = None\<close> is a body whose parsing rejects.
\<close>

record request =
  url :: string
  http_method :: "string option"
  headers :: "(string \<times> string) list"
  body :: "jsval option"

record response =
  ok :: bool
  statusText :: string
  json :: "jsval option"

text \<open>
  The three capabilities are injected: the transport (\<open>config.fetch ?? globalThis.fetch\<close>),
  the signer (\<open>config.wallet.signer.signChallenge\<close>) and the storage adapter
  (\<open>config.storage\<close>, of type \<open>StorageAdapter\<close>). Each of their calls is awaited and may
  reject (\<open>Inl\<close>); each may keep state of its own, the world \<open>'w\<close>. An adapter method is
  given the contents of the adapter, by key, and returns the contents it leaves, whether
  it resolves or rejects.
\<close>

record 'w env =
  fetch :: "request \<Rightarrow> 'w \<Rightarrow> (error + response) \<times> 'w"
  signChallenge :: "jsval \<Rightarrow> jsval \<Rightarrow> 'w \<Rightarrow> (error + string) \<times> 'w"
  adapter_get :: "string \<Rightarrow> (string \<rightharpoonup> jsval) \<Rightarrow> 'w \<Rightarrow> (error + jsval) \<times> (string \<rightharpoonup> jsval) \<times> 'w"
  adapter_set ::
    "string \<Rightarrow> jsval \<Rightarrow> (string \<rightharpoonup> jsval) \<Rightarrow> 'w \<Rightarrow> (error + unit) \<times> (string \<rightharpoonup> jsval) \<times> 'w"
  adapter_delete :: "string \<Rightarrow> (string \<rightharpoonup> jsval) \<Rightarrow> 'w \<Rightarrow> (error + unit) \<times> (string \<rightharpoonup> jsval) \<times> 'w"

text \<open>
  The adapter of the repository, \<open>MemoryStorageAdapter\<close>, over a \<open>Map\<close>: \<open>get\<close> is
  \<open>this.storage.get(key) ?? null\<close>, \<open>set\<close> and \<open>delete\<close> are those of the \<open>Map\<close>. None of
  them rejects.
\<close>

definition memory_get ::
  "string \<Rightarrow> (string \<rightharpoonup> jsval) \<Rightarrow> 'w \<Rightarrow> (error + jsval) \<times> (string \<rightharpoonup> jsval) \<times> 'w" where
  "memory_get k m w = (Inr (case m k of None \<Rightarrow> JNull | Some v \<Rightarrow> nullish v JNull), m, w)"

definition memory_set ::
  "string \<Rightarrow> jsval \<Rightarrow> (string \<rightharpoonup> jsval) \<Rightarrow> 'w \<Rightarrow> (error + unit) \<times> (string \<rightharpoonup> jsval) \<times> 'w" where
  "memory_set k v m w = (Inr (), m(k \<mapsto> v), w)"

definition memory_delete ::
  "string \<Rightarrow> (string \<rightharpoonup> jsval) \<Rightarrow> 'w \<Rightarrow> (error + unit) \<times> (string \<rightharpoonup> jsval) \<times> 'w" where
  "memory_delete k m w = (Inr (), m(k := None), w)"

datatype event =
    Fetch request
  | Sign jsval jsval
  | StorageGet string
  | StorageSet string jsval
  | StorageDelete string

record config =
  baseUrl :: "string option"
  agentRef :: "string option"
  credentialId :: "string option"

text \<open>
  The state of an \<open>AgentRuntime\<close>: its two private fields, the storage adapter
  (\<open>config.storage\<close>: \<open>None\<close> when none is configured, otherwise the contents of the
  adapter), the world of the injected capabilities, and the trace of every port call made
  so far.
\<close>

record 'w runtime =
  accessToken :: jsval
  refreshToken :: jsval
  storage :: "(string \<rightharpoonup> jsval) option"
  world :: 'w
  trace :: "event list"

definition do_fetch :: "'w env \<Rightarrow> request \<Rightarrow> 'w runtime \<Rightarrow> (error + response) \<times> 'w runtime" where
  "do_fetch env req s =
     (case fetch env req (world s) of
        (r, w) \<Rightarrow> (r, s\<lparr>world := w, trace := trace s @ [Fetch req]\<rparr>))"

definition do_sign :: "'w env \<Rightarrow> jsval \<Rightarrow> jsval \<Rightarrow> 'w runtime \<Rightarrow> (error + string) \<times> 'w runtime" where
  "do_sign env cid payload s =
     (case signChallenge env cid payload (world s) of
        (r, w) \<Rightarrow> (r, s\<lparr>world := w, trace := trace s @ [Sign cid payload]\<rparr>))"

text \<open>
  The three calls on \<open>config.storage\<close>. Each carries the test that guards it in the
  source: \<open>config.storage?.get(...)\<close> is \<open>undefined\<close> without an adapter, and \<open>set\<close> and
  \<open>delete\<close> are only called under \<open>if (this.config.storage)\<close>.
\<close>

definition storage_get :: "'w env \<Rightarrow> string \<Rightarrow> 'w runtime \<Rightarrow> (error + jsval) \<times> 'w runtime" where
  "storage_get env k s =
     (case storage s of
        None \<Rightarrow> (Inr JUndefined, s)
      | Some m \<Rightarrow>
         (case adapter_get env k m (world s) of
            (r, m', w) \<Rightarrow> (r, s\<lparr>storage := Some m', world := w, trace := trace s @ [StorageGet k]\<rparr>)))"

definition storage_set :: "'w env \<Rightarrow> string \<Rightarrow> jsval \<Rightarrow> 'w runtime \<Rightarrow> (error + unit) \<times> 'w runtime" where
  "storage_set env k v s =
     (case storage s of
        None \<Rightarrow> (Inr (), s)
      | Some m \<Rightarrow>
         (case adapter_set env k v m (world s) of
            (r, m', w) \<Rightarrow> (r, s\<lparr>storage := Some m', world := w, trace := trace s @ [StorageSet k v]\<rparr>)))"

definition storage_delete :: "'w env \<Rightarrow> string \<Rightarrow> 'w runtime \<Rightarrow> (error + unit) \<times> 'w runtime" where
  "storage_delete env k s =
     (case storage s of
        None \<Rightarrow> (Inr (), s)
      | Some m \<Rightarrow>
         (case adapter_delete env k m (world s) of
            (r, m', w) \<Rightarrow> (r, s\<lparr>storage := Some m', world := w, trace := trace s @ [StorageDelete k]\<rparr>)))"

section \<open>The token lifecycle: \<open>authenticate\<close>, \<open>refreshAccessToken\<close>, \<open>ensureAccessToken\<close>\<close>

definition json_headers :: "(string \<times> string) list" where
  "json_headers = [(''Content-Type'', ''application/json'')]"

text \<open>\<open>!baseUrl\<close>: the override is missing or the empty string.\<close>

definition no_baseUrl :: "config \<Rightarrow> bool" where
  "no_baseUrl cfg = (case baseUrl cfg of None \<Rightarrow> True | Some b \<Rightarrow> b = [])"

text \<open>
  The base URL as a template literal prints it once \<open>!baseUrl\<close> is false, which is also
  the \<open>baseUrl ?? ''''\<close> that \<open>createApiClient\<close> captures.
\<close>

definition base_of :: "config \<Rightarrow> string" where
  "base_of cfg = (case baseUrl cfg of None \<Rightarrow> [] | Some b \<Rightarrow> b)"

definition challenge_request :: "config \<Rightarrow> request" where
  "challenge_request cfg =
     \<lparr>url = base_of cfg @ ''/auth/challenge'', http_method = Some ''POST'', headers = json_headers,
      body = Some (JObject [(''agentRef'', of_opt (agentRef cfg)),
                            (''credentialId'', of_opt (credentialId cfg))])\<rparr>"

definition exchange_request :: "config \<Rightarrow> jsval \<Rightarrow> string \<Rightarrow> request" where
  "exchange_request cfg cid signature =
     \<lparr>url = base_of cfg @ ''/auth/exchange'', http_method = Some ''POST'', headers = json_headers,
      body = Some (JObject [(''challengeId'', cid), (''signature'', JString signature)])\<rparr>"

definition refresh_request :: "config \<Rightarrow> jsval \<Rightarrow> request" where
  "refresh_request cfg rt =
     \<lparr>url = base_of cfg @ ''/auth/refresh'', http_method = Some ''POST'', headers = json_headers,
      body = Some (JObject [(''refreshToken'', rt)])\<rparr>"

text \<open>
  \<open>authenticate\<close> is modelled in three pieces, in the order of the source. The last one,
  \<open>store_tokens\<close>, starts at \<open>const tokens = await tokenResponse.json()\<close>: both property
  reads happen on the same value, so on \<open>null\<close> the first one throws before either field
  is assigned. The awaited \<open>storage.set\<close> comes after both assignments; when it rejects,
  \<open>authenticate\<close> rejects with the two fields already assigned.
\<close>

definition store_tokens :: "'w env \<Rightarrow> jsval \<Rightarrow> 'w runtime \<Rightarrow> (error + unit) \<times> 'w runtime" where
  "store_tokens env tokens s =
     (case get_prop tokens ''accessToken'' of
        Inl e \<Rightarrow> (Inl e, s)
      | Inr at \<Rightarrow>
         (case get_prop tokens ''refreshToken'' of
            Inl e \<Rightarrow> (Inl e, s\<lparr>accessToken := at\<rparr>)
          | Inr rt \<Rightarrow>
             (let s1 = s\<lparr>accessToken := at, refreshToken := rt\<rparr>
              in if truthy rt then storage_set env ''refresh_token'' rt s1 else (Inr (), s1))))"

text \<open>From \<open>// Sign challenge\<close> to the check of \<open>tokenResponse.ok\<close>.\<close>

definition sign_and_exchange ::
  "config \<Rightarrow> 'w env \<Rightarrow> jsval \<Rightarrow> 'w runtime \<Rightarrow> (error + unit) \<times> 'w runtime" where
  "sign_and_exchange cfg env challenge s1 =
     (case get_prop challenge ''id'' of
        Inl e \<Rightarrow> (Inl e, s1)
      | Inr cid \<Rightarrow>
         (case get_prop challenge ''payload'' of
            Inl e \<Rightarrow> (Inl e, s1)
          | Inr payload \<Rightarrow>
             (case do_sign env cid payload s1 of
                (Inl e, s2) \<Rightarrow> (Inl e, s2)
              | (Inr signature, s2) \<Rightarrow>
                 (case do_fetch env (exchange_request cfg cid signature) s2 of
                    (Inl e, s3) \<Rightarrow> (Inl e, s3)
                  | (Inr tokenResponse, s3) \<Rightarrow>
                     if \<not> ok tokenResponse
                     then (Inl (Error (''Token exchange failed: '' @ statusText tokenResponse)), s3)
                     else (case json tokenResponse of
                             None \<Rightarrow> (Inl SyntaxError, s3)
                           | Some tokens \<Rightarrow> store_tokens env tokens s3)))))"

definition authenticate :: "config \<Rightarrow> 'w env \<Rightarrow> 'w runtime \<Rightarrow> (error + unit) \<times> 'w runtime" where
  "authenticate cfg env s =
     (if no_baseUrl cfg then (Inl (Error ''Base URL is required for authentication''), s)
      else
       (case do_fetch env (challenge_request cfg) s of
          (Inl e, s1) \<Rightarrow> (Inl e, s1)
        | (Inr challengeResponse, s1) \<Rightarrow>
           if \<not> ok challengeResponse
           then (Inl (Error (''Challenge request failed: '' @ statusText challengeResponse)), s1)
           else (case json challengeResponse of
                   None \<Rightarrow> (Inl SyntaxError, s1)
                 | Some challenge \<Rightarrow> sign_and_exchange cfg env challenge s1)))"

text \<open>
  The \<open>catch\<close> block of \<open>refreshAccessToken\<close>: the field is cleared, then the adapter's
  \<open>delete\<close> is awaited. A rejection of that \<open>delete\<close> is not caught by anything: it is the
  rejection of \<open>refreshAccessToken\<close>.
\<close>

definition refresh_catch :: "'w env \<Rightarrow> 'w runtime \<Rightarrow> (error + unit) \<times> 'w runtime" where
  "refresh_catch env s = storage_delete env ''refresh_token'' (s\<lparr>refreshToken := JNull\<rparr>)"

text \<open>
  The body of \<open>if (response.ok)\<close>, inside the \<open>try\<close>: whatever is thrown here, a rejected
  \<open>storage.set\<close> included, is handled by the \<open>catch\<close> block.
\<close>

definition refresh_ok :: "'w env \<Rightarrow> response \<Rightarrow> 'w runtime \<Rightarrow> (error + unit) \<times> 'w runtime" where
  "refresh_ok env response s1 =
     (case json response of
        None \<Rightarrow> refresh_catch env s1
      | Some tokens \<Rightarrow>
         (case get_prop tokens ''accessToken'' of
            Inl e \<Rightarrow> refresh_catch env s1
          | Inr at \<Rightarrow>
             (case get_prop tokens ''refreshToken'' of
                Inl e \<Rightarrow> refresh_catch env (s1\<lparr>accessToken := at\<rparr>)
              | Inr rt \<Rightarrow>
                 if truthy rt
                 then (case storage_set env ''refresh_token'' rt
                              (s1\<lparr>accessToken := at, refreshToken := rt\<rparr>) of
                         (Inl e, s2) \<Rightarrow> refresh_catch env s2
                       | (Inr u, s2) \<Rightarrow> (Inr (), s2))
                 else (Inr (), s1\<lparr>accessToken := at\<rparr>))))"

definition refreshAccessToken :: "config \<Rightarrow> 'w env \<Rightarrow> 'w runtime \<Rightarrow> (error + unit) \<times> 'w runtime" where
  "refreshAccessToken cfg env s =
     (if \<not> truthy (refreshToken s) then (Inr (), s)
      else if no_baseUrl cfg then (Inr (), s)
      else
       (case do_fetch env (refresh_request cfg (refreshToken s)) s of
          (Inl e, s1) \<Rightarrow> refresh_catch env s1
        | (Inr response, s1) \<Rightarrow> if ok response then refresh_ok env response s1 else (Inr (), s1)))"

text \<open>The end of \<open>ensureAccessToken\<close>, from \<open>// Challenge flow\<close> on.\<close>

definition challenge_flow :: "config \<Rightarrow> 'w env \<Rightarrow> 'w runtime \<Rightarrow> (error + jsval) \<times> 'w runtime" where
  "challenge_flow cfg env s1 =
     (case authenticate cfg env s1 of
        (Inl e, s2) \<Rightarrow> (Inl e, s2)
      | (Inr u, s2) \<Rightarrow> (Inr (nullish (accessToken s2) (JString [])), s2))"

definition ensureAccessToken :: "config \<Rightarrow> 'w env \<Rightarrow> 'w runtime \<Rightarrow> (error + jsval) \<times> 'w runtime" where
  "ensureAccessToken cfg env s =
     (if truthy (accessToken s) then (Inr (accessToken s), s)
      else if truthy (refreshToken s) then
        (case refreshAccessToken cfg env s of
           (Inl e, s1) \<Rightarrow> (Inl e, s1)
         | (Inr u, s1) \<Rightarrow>
            if truthy (accessToken s1) then (Inr (accessToken s1), s1)
            else challenge_flow cfg env s1)
      else challenge_flow cfg env s)"

text \<open>
  \<open>AgentRuntime.load\<close>: a fresh runtime (both fields \<open>null\<close>), one read of the stored
  refresh token, and one refresh attempt when that token is truthy. The result is the
  runtime as \<open>load\<close> leaves it, with \<open>Inl\<close> when \<open>load\<close> rejects.
\<close>

definition load ::
  "config \<Rightarrow> 'w env \<Rightarrow> (string \<rightharpoonup> jsval) option \<Rightarrow> 'w \<Rightarrow> (error + unit) \<times> 'w runtime" where
  "load cfg env st w =
     (case storage_get env ''refresh_token''
             \<lparr>accessToken = JNull, refreshToken = JNull, storage = st, world = w, trace = []\<rparr> of
        (Inl e, s1) \<Rightarrow> (Inl e, s1)
      | (Inr rt, s1) \<Rightarrow>
         if truthy rt then refreshAccessToken cfg env (s1\<lparr>refreshToken := rt\<rparr>) else (Inr (), s1))"

section \<open>The signed API client\<close>

text \<open>
  The four operations of \<open>createApiClient\<close>, each as the source writes it. The header
  value is the template literal \<open>`Bearer ${token}`\<close>; \<open>return response.json()\<close> resolves
  to the parsed body or rejects.
\<close>

definition bearer :: "jsval \<Rightarrow> string \<times> string" where
  "bearer token = (''Authorization'', ''Bearer '' @ toString token)"

definition read_json :: "response \<Rightarrow> 'w runtime \<Rightarrow> (error + jsval) \<times> 'w runtime" where
  "read_json response s = (case json response of None \<Rightarrow> (Inl SyntaxError, s) | Some v \<Rightarrow> (Inr v, s))"

definition getAgent :: "config \<Rightarrow> 'w env \<Rightarrow> 'w runtime \<Rightarrow> (error + jsval) \<times> 'w runtime" where
  "getAgent cfg env s =
     (case ensureAccessToken cfg env s of
        (Inl e, s1) \<Rightarrow> (Inl e, s1)
      | (Inr token, s1) \<Rightarrow>
         (case do_fetch env \<lparr>url = base_of cfg @ ''/agents/me'', http_method = None,
                             headers = [bearer token], body = None\<rparr> s1 of
            (Inl e, s2) \<Rightarrow> (Inl e, s2)
          | (Inr response, s2) \<Rightarrow>
             if \<not> ok response
             then (Inl (Error (''Failed to get agent: '' @ statusText response)), s2)
             else read_json response s2))"

definition signTypedData ::
  "config \<Rightarrow> 'w env \<Rightarrow> jsval \<Rightarrow> 'w runtime \<Rightarrow> (error + jsval) \<times> 'w runtime" where
  "signTypedData cfg env params s =
     (case ensureAccessToken cfg env s of
        (Inl e, s1) \<Rightarrow> (Inl e, s1)
      | (Inr token, s1) \<Rightarrow>
         (case do_fetch env \<lparr>url = base_of cfg @ ''/wallet/sign-typed-data'',
                             http_method = Some ''POST'',
                             headers = [bearer token, (''Content-Type'', ''application/json'')],
                             body = Some params\<rparr> s1 of
            (Inl e, s2) \<Rightarrow> (Inl e, s2)
          | (Inr response, s2) \<Rightarrow>
             if \<not> ok response
             then (Inl (Error (''Failed to sign typed data: '' @ statusText response)), s2)
             else read_json response s2))"

definition signMessage ::
  "config \<Rightarrow> 'w env \<Rightarrow> jsval \<Rightarrow> 'w runtime \<Rightarrow> (error + jsval) \<times> 'w runtime" where
  "signMessage cfg env params s =
     (case ensureAccessToken cfg env s of
        (Inl e, s1) \<Rightarrow> (Inl e, s1)
      | (Inr token, s1) \<Rightarrow>
         (case do_fetch env \<lparr>url = base_of cfg @ ''/wallet/sign-message'',
                             http_method = Some ''POST'',
                             headers = [bearer token, (''Content-Type'', ''application/json'')],
                             body = Some params\<rparr> s1 of
            (Inl e, s2) \<Rightarrow> (Inl e, s2)
          | (Inr response, s2) \<Rightarrow>
             if \<not> ok response
             then (Inl (Error (''Failed to sign message: '' @ statusText response)), s2)
             else read_json response s2))"

definition listAgents :: "config \<Rightarrow> 'w env \<Rightarrow> 'w runtime \<Rightarrow> (error + jsval) \<times> 'w runtime" where
  "listAgents cfg env s =
     (case ensureAccessToken cfg env s of
        (Inl e, s1) \<Rightarrow> (Inl e, s1)
      | (Inr token, s1) \<Rightarrow>
         (case do_fetch env \<lparr>url = base_of cfg @ ''/agents'', http_method = None,
                             headers = [bearer token], body = None\<rparr> s1 of
            (Inl e, s2) \<Rightarrow> (Inl e, s2)
          | (Inr response, s2) \<Rightarrow>
             if \<not> ok response
             then (Inl (Error (''Failed to list agents: '' @ statusText response)), s2)
             else read_json response s2))"

text \<open>
  The template of the specification for a domain operation, as a property of its outcome
  \<open>out\<close> from the state \<open>s\<close>: the token comes from \<open>ensureAccessToken\<close>, whose failure is the
  operation's failure; otherwise the trace grows by exactly one request, to the
  operation's path, whose \<open>Authorization\<close> header is \<open>Bearer\<close> followed by the token; a
  transport error is passed on; a response that is not \<open>ok\<close> becomes the error \<open>msg\<close>
  followed by the status text; the tokens and the storage are those that
  \<open>ensureAccessToken\<close> left.
\<close>

definition follows_template ::
  "config \<Rightarrow> 'w env \<Rightarrow> string \<Rightarrow> string \<Rightarrow> 'w runtime \<Rightarrow> (error + jsval) \<times> 'w runtime \<Rightarrow> bool" where
  "follows_template cfg env path msg s out =
     (case ensureAccessToken cfg env s of
        (Inl e, s1) \<Rightarrow> out = (Inl e, s1)
      | (Inr token, s1) \<Rightarrow>
         take (length (trace s1)) (trace (snd out)) = trace s1 \<and>
         accessToken (snd out) = accessToken s1 \<and>
         refreshToken (snd out) = refreshToken s1 \<and>
         storage (snd out) = storage s1 \<and>
         (case drop (length (trace s1)) (trace (snd out)) of
            [Fetch req] \<Rightarrow>
              url req = base_of cfg @ path \<and>
              map_of (headers req) ''Authorization'' = Some (''Bearer '' @ toString token) \<and>
              (case fst (fetch env req (world s1)) of
                 Inl e \<Rightarrow> fst out = Inl e
               | Inr response \<Rightarrow>
                  if ok response then fst out = fst (read_json response s1)
                  else fst out = Inl (Error (msg @ statusText response)))
          | _ \<Rightarrow> False))"

section \<open>Observations and a scripted environment\<close>

text \<open>The adapter's entry under a key, \<open>None\<close> when there is no adapter or no entry.\<close>

definition stored :: "'w runtime \<Rightarrow> string \<Rightarrow> jsval option" where
  "stored s k = (case storage s of None \<Rightarrow> None | Some m \<Rightarrow> m k)"

text \<open>
  The configuration of the scenario of the specification, a transport that answers each
  of the endpoints with a fixed outcome, a signer with a fixed outcome, and the
  \<open>MemoryStorageAdapter\<close>. The world counts the calls made to the transport and the
  signer. \<open>rejecting\<close> replaces the adapter by one whose \<open>set\<close> and \<open>delete\<close> reject.
\<close>

definition demo_cfg :: config where
  "demo_cfg = \<lparr>baseUrl = Some ''https://api.example.com'', agentRef = Some ''a1'',
               credentialId = Some ''c1''\<rparr>"

definition reply :: "bool \<Rightarrow> string \<Rightarrow> jsval option \<Rightarrow> error + response" where
  "reply b st j = Inr \<lparr>ok = b, statusText = st, json = j\<rparr>"

definition scripted ::
  "(error + response) \<Rightarrow> (error + response) \<Rightarrow> (error + string) \<Rightarrow> (error + response) \<Rightarrow>
   (error + response) \<Rightarrow> nat env" where
  "scripted rf ch sg ex api =
     \<lparr>fetch = (\<lambda>req n.
        (if url req = ''https://api.example.com/auth/refresh'' then rf
         else if url req = ''https://api.example.com/auth/challenge'' then ch
         else if url req = ''https://api.example.com/auth/exchange'' then ex
         else api, Suc n)),
      signChallenge = (\<lambda>cid payload n. (sg, Suc n)),
      adapter_get = memory_get, adapter_set = memory_set, adapter_delete = memory_delete\<rparr>"

definition rejecting :: "nat env \<Rightarrow> nat env" where
  "rejecting env =
     env\<lparr>adapter_set := (\<lambda>k v m n. (Inl (Thrown ''disk full''), m, n)),
         adapter_delete := (\<lambda>k m n. (Inl (Thrown ''disk full''), m, n))\<rparr>"

definition fresh :: "jsval \<Rightarrow> jsval \<Rightarrow> (string \<rightharpoonup> jsval) option \<Rightarrow> nat runtime" where
  "fresh at rt st = \<lparr>accessToken = at, refreshToken = rt, storage = st, world = 0, trace = []\<rparr>"

definition challenge_ok :: "error + response" where
  "challenge_ok = reply True ''OK'' (Some (JObject [(''id'', JString ''ch1''), (''payload'', JString ''p'')]))"

definition tokens_ok :: "error + response" where
  "tokens_ok = reply True ''OK''
     (Some (JObject [(''accessToken'', JString ''AT1''), (''refreshToken'', JString ''RT1'')]))"

definition access_only :: "error + response" where
  "access_only = reply True ''OK'' (Some (JObject [(''accessToken'', JString ''AT2'')]))"

definition unauthorized :: "error + response" where
  "unauthorized = reply False ''Unauthorized'' None"

definition offline :: "error + response" where
  "offline = Inl (Thrown ''network down'')"

definition garbled :: "error + response" where
  "garbled = reply True ''OK'' None"

definition null_body :: "error + response" where
  "null_body = reply True ''OK'' (Some JNull)"

definition empty_body :: "error + response" where
  "empty_body = reply True ''OK'' (Some (JObject []))"

definition held :: "(string \<rightharpoonup> jsval) option" where
  "held = Some [''refresh_token'' \<mapsto> JString ''RT0'']"

section \<open>Frame lemmas\<close>

lemma get_prop_Inl: "get_prop v k = Inl e \<Longrightarrow> get_prop v k' = Inl e"
  by (cases v) auto

lemma do_fetch_frame:
  "do_fetch env req s = (r, s') \<Longrightarrow>
     accessToken s' = accessToken s \<and> refreshToken s' = refreshToken s \<and> storage s' = storage s"
  by (auto simp: do_fetch_def split: prod.splits)

lemma do_sign_frame:
  "do_sign env c p s = (r, s') \<Longrightarrow>
     accessToken s' = accessToken s \<and> refreshToken s' = refreshToken s \<and> storage s' = storage s"
  by (auto simp: do_sign_def split: prod.splits)

text \<open>
  \<open>store_tokens\<close> fails either on a \<open>null\<close> body, before any assignment, or because the
  adapter's \<open>set\<close> rejects, after both.
\<close>

lemma store_tokens_Inl:
  assumes "store_tokens env tk s = (Inl e, s')"
  shows "s' = s \<or>
         (\<exists>m m' w'. get_prop tk ''accessToken'' = Inr (accessToken s') \<and>
            get_prop tk ''refreshToken'' = Inr (refreshToken s') \<and>
            truthy (refreshToken s') \<and> storage s = Some m \<and>
            adapter_set env ''refresh_token'' (refreshToken s') m (world s) = (Inl e, m', w') \<and>
            storage s' = Some m')"
  using assms
  by (cases tk)
     (auto simp: store_tokens_def Let_def storage_set_def split: if_splits option.splits prod.splits)

lemma store_tokens_Inr:
  assumes "store_tokens env tk s = (Inr u, s')"
  shows "get_prop tk ''accessToken'' = Inr (accessToken s') \<and>
         get_prop tk ''refreshToken'' = Inr (refreshToken s') \<and>
         (\<not> truthy (refreshToken s') \<or> storage s = None \<or>
          (\<exists>m. storage s = Some m \<and>
               fst (adapter_set env ''refresh_token'' (refreshToken s') m (world s)) = Inr ()))"
  using assms
  by (auto simp: store_tokens_def Let_def storage_set_def
           split: sum.splits if_splits option.splits prod.splits)

text \<open>The run of \<open>authenticate\<close> when both requests are answered and the signer signs.\<close>

lemma authenticate_run:
  assumes "\<not> no_baseUrl cfg"
    and "fetch env (challenge_request cfg) (world s) = (Inr cr, w1)" and "ok cr" and "json cr = Some ch"
    and "get_prop ch ''id'' = Inr cid" and "get_prop ch ''payload'' = Inr pl"
    and "signChallenge env cid pl w1 = (Inr sg, w2)"
    and "fetch env (exchange_request cfg cid sg) w2 = (Inr tr, w3)" and "ok tr" and "json tr = Some tk"
  shows "authenticate cfg env s =
           store_tokens env tk (s\<lparr>world := w3,
             trace := trace s @ [Fetch (challenge_request cfg), Sign cid pl,
                                 Fetch (exchange_request cfg cid sg)]\<rparr>)"
  using assms
  by (simp add: authenticate_def sign_and_exchange_def do_fetch_def do_sign_def)

text \<open>
  Every run of \<open>authenticate\<close> that gets as far as \<open>store_tokens\<close> is of that form;
  every other run fails with the fields and the storage untouched.
\<close>

lemma authenticate_cases:
  "(\<exists>e s'. authenticate cfg env s = (Inl e, s') \<and> accessToken s' = accessToken s \<and>
       refreshToken s' = refreshToken s \<and> storage s' = storage s \<and>
       \<not> (\<exists>cr w1 ch cid pl sg w2 tr w3 tk at rt.
          \<not> no_baseUrl cfg \<and>
          fetch env (challenge_request cfg) (world s) = (Inr cr, w1) \<and> ok cr \<and> json cr = Some ch \<and>
          get_prop ch ''id'' = Inr cid \<and> get_prop ch ''payload'' = Inr pl \<and>
          signChallenge env cid pl w1 = (Inr sg, w2) \<and>
          fetch env (exchange_request cfg cid sg) w2 = (Inr tr, w3) \<and> ok tr \<and> json tr = Some tk \<and>
          get_prop tk ''accessToken'' = Inr at \<and> get_prop tk ''refreshToken'' = Inr rt)) \<or>
   (\<exists>cr w1 ch cid pl sg w2 tr w3 tk at rt.
       \<not> no_baseUrl cfg \<and>
       fetch env (challenge_request cfg) (world s) = (Inr cr, w1) \<and> ok cr \<and> json cr = Some ch \<and>
       get_prop ch ''id'' = Inr cid \<and> get_prop ch ''payload'' = Inr pl \<and>
       signChallenge env cid pl w1 = (Inr sg, w2) \<and>
       fetch env (exchange_request cfg cid sg) w2 = (Inr tr, w3) \<and> ok tr \<and> json tr = Some tk \<and>
       get_prop tk ''accessToken'' = Inr at \<and> get_prop tk ''refreshToken'' = Inr rt \<and>
       authenticate cfg env s =
         store_tokens env tk (s\<lparr>world := w3,
             trace := trace s @ [Fetch (challenge_request cfg), Sign cid pl,
                                 Fetch (exchange_request cfg cid sg)]\<rparr>))"
proof (cases "no_baseUrl cfg")
  case True
  then show ?thesis by (simp add: authenticate_def)
next
  case nb: False
  obtain r1 w1 where f1: "fetch env (challenge_request cfg) (world s) = (r1, w1)"
    by (cases "fetch env (challenge_request cfg) (world s)")
  show ?thesis
  proof (cases r1)
    case (Inl e)
    with nb f1 show ?thesis by (simp add: authenticate_def do_fetch_def)
  next
    case (Inr cr)
    note cr = this
    show ?thesis
    proof (cases "ok cr \<and> (\<exists>ch. json cr = Some ch \<and> ch \<noteq> JNull \<and> ch \<noteq> JUndefined)")
      case False
      with nb f1 cr show ?thesis
        by (cases "json cr"; cases "the (json cr)")
           (auto simp: authenticate_def do_fetch_def sign_and_exchange_def)
    next
      case True
      then obtain ch where ch: "ok cr" "json cr = Some ch" "ch \<noteq> JNull" "ch \<noteq> JUndefined" by blast
      then obtain cid pl where gp: "get_prop ch ''id'' = Inr cid" "get_prop ch ''payload'' = Inr pl"
        by (cases ch) auto
      obtain r2 w2 where f2: "signChallenge env cid pl w1 = (r2, w2)"
        by (cases "signChallenge env cid pl w1")
      show ?thesis
      proof (cases r2)
        case (Inl e)
        with nb f1 cr ch gp f2 show ?thesis
          by (simp add: authenticate_def do_fetch_def sign_and_exchange_def do_sign_def)
      next
        case (Inr sg)
        note sg = this
        obtain r3 w3 where f3: "fetch env (exchange_request cfg cid sg) w2 = (r3, w3)"
          by (cases "fetch env (exchange_request cfg cid sg) w2")
        show ?thesis
        proof (cases r3)
          case (Inl e)
          with nb f1 cr ch gp f2 sg f3 show ?thesis
            by (simp add: authenticate_def do_fetch_def sign_and_exchange_def do_sign_def)
        next
          case (Inr tr)
          note tr = this
          show ?thesis
          proof (cases "ok tr \<and> (\<exists>tk. json tr = Some tk \<and> tk \<noteq> JNull \<and> tk \<noteq> JUndefined)")
            case False
            with nb f1 cr ch gp f2 sg f3 tr show ?thesis
              by (cases "json tr"; cases "the (json tr)")
                 (auto simp: authenticate_def do_fetch_def sign_and_exchange_def do_sign_def
                             store_tokens_def)
          next
            case True
            then obtain tk where tk: "ok tr" "json tr = Some tk" "tk \<noteq> JNull" "tk \<noteq> JUndefined"
              by blast
            then obtain at rt where
              gt: "get_prop tk ''accessToken'' = Inr at" "get_prop tk ''refreshToken'' = Inr rt"
              by (cases tk) auto
            from nb f1 cr ch gp f2 sg f3 tr tk
            have "authenticate cfg env s =
              store_tokens env tk (s\<lparr>world := w3,
                trace := trace s @ [Fetch (challenge_request cfg), Sign cid pl,
                                    Fetch (exchange_request cfg cid sg)]\<rparr>)"
              by (intro authenticate_run) simp_all
            with nb f1 cr ch gp f2 sg f3 tr tk gt show ?thesis by blast
          qed
        qed
      qed
    qed
  qed
qed

lemmas scenario_defs =
  demo_cfg_def scripted_def rejecting_def fresh_def reply_def challenge_ok_def tokens_ok_def
  access_only_def unauthorized_def offline_def garbled_def null_body_def empty_body_def held_def
  stored_def no_baseUrl_def base_of_def json_headers_def challenge_request_def
  exchange_request_def refresh_request_def of_opt_def memory_get_def memory_set_def
  memory_delete_def

lemmas run_defs =
  ensureAccessToken_def challenge_flow_def refreshAccessToken_def refresh_ok_def
  refresh_catch_def authenticate_def sign_and_exchange_def store_tokens_def do_fetch_def
  do_sign_def storage_set_def storage_delete_def storage_get_def load_def

section \<open>The fast path\<close>

text \<open>
  Claim C3. In every state whose access token is cached (truthy, the test of the source),
  \<open>ensureAccessToken\<close> returns that very token and the state it leaves is the state it
  found: no request, no signature, no storage operation is added to the trace, and the
  tokens, the storage and the world are untouched. Any number \<open>n\<close> of further calls
  leaves the state where it was, so each of them returns the same token again.
\<close>

theorem ensureAccessToken_fast_path:
  assumes "truthy (accessToken s)"
  shows "ensureAccessToken cfg env s = (Inr (accessToken s), s) \<and>
         trace (snd (ensureAccessToken cfg env s)) = trace s \<and>
         ((\<lambda>t. snd (ensureAccessToken cfg env t)) ^^ n) s = s"
proof -
  have one: "ensureAccessToken cfg env s = (Inr (accessToken s), s)"
    using assms by (simp add: ensureAccessToken_def)
  have "((\<lambda>t. snd (ensureAccessToken cfg env t)) ^^ n) s = s"
    by (induction n) (simp_all add: one)
  with one show ?thesis by simp
qed

theorem ensureAccessToken_fast_path_witness:
  "truthy (accessToken (fresh (JString ''AT1'') JNull held)) \<and>
   ensureAccessToken demo_cfg (scripted offline offline (Inl (Thrown ''no key'')) offline offline)
     (fresh (JString ''AT1'') JNull held)
     = (Inr (JString ''AT1''), fresh (JString ''AT1'') JNull held) \<and>
   trace (snd (ensureAccessToken demo_cfg
        (scripted offline offline (Inl (Thrown ''no key'')) offline offline)
        (fresh (JString ''AT1'') JNull held))) = [] \<and>
   ((\<lambda>t. snd (ensureAccessToken demo_cfg
        (scripted offline offline (Inl (Thrown ''no key'')) offline offline) t)) ^^ 3)
     (fresh (JString ''AT1'') JNull held) = fresh (JString ''AT1'') JNull held"
  using ensureAccessToken_fast_path
    [of "fresh (JString ''AT1'') JNull held" demo_cfg
        "scripted offline offline (Inl (Thrown ''no key'')) offline offline" 3]
  by (simp add: fresh_def)

section \<open>Configuration errors\<close>

text \<open>
  Claim C8. When no access token is cached and the configuration has no base URL (the
  override is missing or empty), \<open>ensureAccessToken\<close> fails with the error
  \<open>Base URL is required for authentication\<close> (the authentication error of the
  specification; the source throws it as a plain \<open>Error\<close>), whatever the refresh token is:
  \<open>refreshAccessToken\<close> returns at its guard and \<open>authenticate\<close> throws at its own. The
  state is left as it was.
\<close>

theorem ensureAccessToken_no_baseUrl:
  assumes "\<not> truthy (accessToken s)" and "no_baseUrl cfg"
  shows "ensureAccessToken cfg env s = (Inl (Error ''Base URL is required for authentication''), s)"
  using assms
  by (simp add: ensureAccessToken_def refreshAccessToken_def challenge_flow_def authenticate_def)

theorem ensureAccessToken_no_baseUrl_witness:
  "\<not> truthy (accessToken (fresh JNull (JString ''RT0'') held)) \<and>
   no_baseUrl (demo_cfg\<lparr>baseUrl := None\<rparr>) \<and>
   ensureAccessToken (demo_cfg\<lparr>baseUrl := None\<rparr>)
     (scripted tokens_ok challenge_ok (Inr ''sig'') tokens_ok offline)
     (fresh JNull (JString ''RT0'') held)
     = (Inl (Error ''Base URL is required for authentication''), fresh JNull (JString ''RT0'') held)"
  using ensureAccessToken_no_baseUrl
    [of "fresh JNull (JString ''RT0'') held" "demo_cfg\<lparr>baseUrl := None\<rparr>"
        "scripted tokens_ok challenge_ok (Inr ''sig'') tokens_ok offline"]
  by (simp add: fresh_def demo_cfg_def no_baseUrl_def)

lemma store_tokens_read:
  assumes "get_prop tk ''accessToken'' = Inr at" and "get_prop tk ''refreshToken'' = Inr rt"
  shows "store_tokens env tk s =
           (if truthy rt
            then storage_set env ''refresh_token'' rt (s\<lparr>accessToken := at, refreshToken := rt\<rparr>)
            else (Inr (), s\<lparr>accessToken := at, refreshToken := rt\<rparr>))"
  using assms by (simp add: store_tokens_def Let_def)

lemma authenticate_Inr:
  assumes "authenticate cfg env s = (Inr u, s')"
  shows "\<not> no_baseUrl cfg \<and> (\<exists>cr w1 ch cid pl sg w2 tr w3 tk.
          fetch env (challenge_request cfg) (world s) = (Inr cr, w1) \<and> ok cr \<and> json cr = Some ch \<and>
          get_prop ch ''id'' = Inr cid \<and> get_prop ch ''payload'' = Inr pl \<and>
          signChallenge env cid pl w1 = (Inr sg, w2) \<and>
          fetch env (exchange_request cfg cid sg) w2 = (Inr tr, w3) \<and> ok tr \<and> json tr = Some tk \<and>
          get_prop tk ''accessToken'' = Inr (accessToken s') \<and>
          get_prop tk ''refreshToken'' = Inr (refreshToken s') \<and>
          (\<not> truthy (refreshToken s') \<or> storage s = None \<or>
           (\<exists>m. storage s = Some m \<and>
                fst (adapter_set env ''refresh_token'' (refreshToken s') m w3) = Inr ())))"
proof -
  from authenticate_cases [of cfg env s] assms
  obtain cr w1 ch cid pl sg w2 tr w3 tk where
    p: "\<not> no_baseUrl cfg"
       "fetch env (challenge_request cfg) (world s) = (Inr cr, w1)" "ok cr" "json cr = Some ch"
       "get_prop ch ''id'' = Inr cid" "get_prop ch ''payload'' = Inr pl"
       "signChallenge env cid pl w1 = (Inr sg, w2)"
       "fetch env (exchange_request cfg cid sg) w2 = (Inr tr, w3)" "ok tr" "json tr = Some tk"
    and st: "authenticate cfg env s =
         store_tokens env tk (s\<lparr>world := w3,
             trace := trace s @ [Fetch (challenge_request cfg), Sign cid pl,
                                 Fetch (exchange_request cfg cid sg)]\<rparr>)"
    by auto
  from st assms have "store_tokens env tk (s\<lparr>world := w3,
             trace := trace s @ [Fetch (challenge_request cfg), Sign cid pl,
                                 Fetch (exchange_request cfg cid sg)]\<rparr>) = (Inr u, s')" by simp
  from store_tokens_Inr [OF this] p show ?thesis by auto
qed

lemma authenticate_succeeds_iff:
  "(\<exists>u. fst (authenticate cfg env s) = Inr u) \<longleftrightarrow>
     (\<not> no_baseUrl cfg \<and> (\<exists>cr w1 ch cid pl sg w2 tr w3 tk at rt.
          fetch env (challenge_request cfg) (world s) = (Inr cr, w1) \<and> ok cr \<and> json cr = Some ch \<and>
          get_prop ch ''id'' = Inr cid \<and> get_prop ch ''payload'' = Inr pl \<and>
          signChallenge env cid pl w1 = (Inr sg, w2) \<and>
          fetch env (exchange_request cfg cid sg) w2 = (Inr tr, w3) \<and> ok tr \<and> json tr = Some tk \<and>
          get_prop tk ''accessToken'' = Inr at \<and> get_prop tk ''refreshToken'' = Inr rt \<and>
          (\<not> truthy rt \<or> storage s = None \<or>
           (\<exists>m. storage s = Some m \<and> fst (adapter_set env ''refresh_token'' rt m w3) = Inr ()))))"
  (is "?L \<longleftrightarrow> ?P")
proof
  assume ?L
  then obtain u where "authenticate cfg env s = (Inr u, snd (authenticate cfg env s))"
    by (metis prod.collapse)
  from authenticate_Inr [OF this] show ?P by blast
next
  assume ?P
  then obtain cr w1 ch cid pl sg w2 tr w3 tk at rt where
    p: "\<not> no_baseUrl cfg"
       "fetch env (challenge_request cfg) (world s) = (Inr cr, w1)" "ok cr" "json cr = Some ch"
       "get_prop ch ''id'' = Inr cid" "get_prop ch ''payload'' = Inr pl"
       "signChallenge env cid pl w1 = (Inr sg, w2)"
       "fetch env (exchange_request cfg cid sg) w2 = (Inr tr, w3)" "ok tr" "json tr = Some tk"
    and t: "get_prop tk ''accessToken'' = Inr at" "get_prop tk ''refreshToken'' = Inr rt"
    and q: "\<not> truthy rt \<or> storage s = None \<or>
           (\<exists>m. storage s = Some m \<and> fst (adapter_set env ''refresh_token'' rt m w3) = Inr ())"
    by blast
  from q have "fst (authenticate cfg env s) = Inr ()"
    unfolding authenticate_run [OF p] store_tokens_read [OF t]
    by (auto simp: storage_set_def split: prod.splits)
  then show ?L by blast
qed

section \<open>Full authentication\<close>




text \<open>
  Claim C10. A full authentication that succeeds on an exchange response without a
  \<open>refreshToken\<close> property assigns \<open>undefined\<close> to the refresh token held in memory and
  performs no storage operation: the adapter, and with it a \<open>refresh_token\<close> entry
  persisted earlier, is left as it was. The storage can so keep a refresh token that the
  runtime no longer holds.
\<close>

theorem full_authentication_without_refresh_token:
  assumes "\<not> no_baseUrl cfg"
    and "fetch env (challenge_request cfg) (world s) = (Inr cr, w1)" and "ok cr" and "json cr = Some ch"
    and "get_prop ch ''id'' = Inr cid" and "get_prop ch ''payload'' = Inr pl"
    and "signChallenge env cid pl w1 = (Inr sg, w2)"
    and "fetch env (exchange_request cfg cid sg) w2 = (Inr tr, w3)" and "ok tr" and "json tr = Some tk"
    and "get_prop tk ''accessToken'' = Inr at"
    and "get_prop tk ''refreshToken'' = Inr JUndefined"
  shows "authenticate cfg env s =
           (Inr (), s\<lparr>accessToken := at, refreshToken := JUndefined, world := w3,
                      trace := trace s @ [Fetch (challenge_request cfg), Sign cid pl,
                                          Fetch (exchange_request cfg cid sg)]\<rparr>) \<and>
         refreshToken (snd (authenticate cfg env s)) = JUndefined \<and>
         storage (snd (authenticate cfg env s)) = storage s \<and>
         stored (snd (authenticate cfg env s)) ''refresh_token'' = stored s ''refresh_token''"
  by (simp add: stored_def authenticate_run [OF assms(1-10)] store_tokens_read [OF assms(11,12)])

theorem full_authentication_without_refresh_token_witness:
  "authenticate demo_cfg (scripted unauthorized challenge_ok (Inr ''sig'') access_only offline)
     (fresh JNull (JString ''RT0'') held)
   = (Inr (), (fresh JNull (JString ''RT0'') held)
        \<lparr>accessToken := JString ''AT2'', refreshToken := JUndefined, world := 3,
         trace := [Fetch (challenge_request demo_cfg), Sign (JString ''ch1'') (JString ''p''),
                   Fetch (exchange_request demo_cfg (JString ''ch1'') ''sig'')]\<rparr>) \<and>
   refreshToken (snd (authenticate demo_cfg
      (scripted unauthorized challenge_ok (Inr ''sig'') access_only offline)
      (fresh JNull (JString ''RT0'') held))) = JUndefined \<and>
   stored (snd (authenticate demo_cfg
      (scripted unauthorized challenge_ok (Inr ''sig'') access_only offline)
      (fresh JNull (JString ''RT0'') held))) ''refresh_token'' = Some (JString ''RT0'')"
  using full_authentication_without_refresh_token
    [of demo_cfg "scripted unauthorized challenge_ok (Inr ''sig'') access_only offline"
        "fresh JNull (JString ''RT0'') held"
        "\<lparr>ok = True, statusText = ''OK'',
          json = Some (JObject [(''id'', JString ''ch1''), (''payload'', JString ''p'')])\<rparr>"
        1 "JObject [(''id'', JString ''ch1''), (''payload'', JString ''p'')]"
        "JString ''ch1''" "JString ''p''" "''sig''" 2
        "\<lparr>ok = True, statusText = ''OK'', json = Some (JObject [(''accessToken'', JString ''AT2'')])\<rparr>"
        3 "JObject [(''accessToken'', JString ''AT2'')]" "JString ''AT2''"]
  by (simp add: scenario_defs)

text \<open>
  Claim C4, as the specification states it, fails: an exchange answered with a success
  status and the JSON body \<open>{}\<close> is not an error for \<open>authenticate\<close>, which assigns
  \<open>undefined\<close> to both fields, and \<open>ensureAccessToken\<close> then returns
  \<open>this.accessToken ?? ''''\<close>, the empty string.
\<close>

theorem empty_token_counterexample:
  "fst (ensureAccessToken demo_cfg (scripted offline challenge_ok (Inr ''sig'') empty_body offline)
          (fresh JNull JNull None)) = Inr (JString [])"
  by (simp add: scenario_defs run_defs)

text \<open>
  Claim C4, amended. Let \<open>s1\<close> be the state in which \<open>ensureAccessToken\<close> reaches
  \<open>authenticate\<close>: the state of the call when no refresh token is held, and otherwise the
  state that a resolved refresh attempt left without a truthy access token. Then
  \<open>ensureAccessToken\<close> fails exactly when \<open>authenticate\<close> does, and \<open>authenticate\<close> fails
  exactly when one of its steps does not deliver: the base URL is missing, or a request
  (challenge, exchange) is thrown by the transport, answered with a non-success status, or
  answered with a body that is not JSON or is \<open>null\<close>, or the signer throws, or the
  adapter's \<open>set\<close> rejects when a truthy refresh token is persisted. A JSON body that
  merely lacks properties is not a failure: the attempt completes and
  \<open>ensureAccessToken\<close> returns the stored access token, or the empty string when that is
  \<open>undefined\<close> or \<open>null\<close>.
\<close>

theorem full_authentication_failure:
  assumes "\<not> truthy (accessToken s)"
    and "(\<not> truthy (refreshToken s) \<and> s1 = s) \<or>
         (truthy (refreshToken s) \<and> refreshAccessToken cfg env s = (Inr (), s1) \<and>
          \<not> truthy (accessToken s1))"
  shows "((\<exists>e. fst (ensureAccessToken cfg env s) = Inl e) \<longleftrightarrow>
           (\<exists>e. fst (authenticate cfg env s1) = Inl e)) \<and>
         ((\<exists>e. fst (authenticate cfg env s1) = Inl e) \<longleftrightarrow>
           \<not> (\<not> no_baseUrl cfg \<and> (\<exists>cr w1 ch cid pl sg w2 tr w3 tk at rt.
              fetch env (challenge_request cfg) (world s1) = (Inr cr, w1) \<and> ok cr \<and>
              json cr = Some ch \<and>
              get_prop ch ''id'' = Inr cid \<and> get_prop ch ''payload'' = Inr pl \<and>
              signChallenge env cid pl w1 = (Inr sg, w2) \<and>
              fetch env (exchange_request cfg cid sg) w2 = (Inr tr, w3) \<and> ok tr \<and>
              json tr = Some tk \<and>
              get_prop tk ''accessToken'' = Inr at \<and> get_prop tk ''refreshToken'' = Inr rt \<and>
              (\<not> truthy rt \<or> storage s1 = None \<or>
               (\<exists>m. storage s1 = Some m \<and>
                    fst (adapter_set env ''refresh_token'' rt m w3) = Inr ()))))) \<and>
         (\<forall>u. fst (authenticate cfg env s1) = Inr u \<longrightarrow>
            fst (ensureAccessToken cfg env s) =
              Inr (nullish (accessToken (snd (authenticate cfg env s1))) (JString [])))"
proof -
  have run: "ensureAccessToken cfg env s = challenge_flow cfg env s1"
    using assms by (auto simp: ensureAccessToken_def)
  have a: "(\<exists>e. fst (ensureAccessToken cfg env s) = Inl e) \<longleftrightarrow>
           (\<exists>e. fst (authenticate cfg env s1) = Inl e)"
    unfolding run challenge_flow_def by (auto split: prod.splits sum.splits)
  have c: "\<forall>u. fst (authenticate cfg env s1) = Inr u \<longrightarrow>
            fst (ensureAccessToken cfg env s) =
              Inr (nullish (accessToken (snd (authenticate cfg env s1))) (JString []))"
    unfolding run challenge_flow_def by (auto split: prod.splits sum.splits)
  have "(\<exists>e. fst (authenticate cfg env s1) = Inl e) \<longleftrightarrow>
        \<not> (\<exists>u. fst (authenticate cfg env s1) = Inr u)"
    by (cases "fst (authenticate cfg env s1)") auto
  then have b: "(\<exists>e. fst (authenticate cfg env s1) = Inl e) \<longleftrightarrow>
           \<not> (\<not> no_baseUrl cfg \<and> (\<exists>cr w1 ch cid pl sg w2 tr w3 tk at rt.
              fetch env (challenge_request cfg) (world s1) = (Inr cr, w1) \<and> ok cr \<and>
              json cr = Some ch \<and>
              get_prop ch ''id'' = Inr cid \<and> get_prop ch ''payload'' = Inr pl \<and>
              signChallenge env cid pl w1 = (Inr sg, w2) \<and>
              fetch env (exchange_request cfg cid sg) w2 = (Inr tr, w3) \<and> ok tr \<and>
              json tr = Some tk \<and>
              get_prop tk ''accessToken'' = Inr at \<and> get_prop tk ''refreshToken'' = Inr rt \<and>
              (\<not> truthy rt \<or> storage s1 = None \<or>
               (\<exists>m. storage s1 = Some m \<and>
                    fst (adapter_set env ''refresh_token'' rt m w3) = Inr ()))))"
    unfolding authenticate_succeeds_iff [of cfg env s1] .
  show ?thesis by (rule conjI [OF a conjI [OF b c]])
qed

theorem full_authentication_failure_witness:
  "\<not> truthy (accessToken (fresh JNull JNull held)) \<and>
   fst (authenticate demo_cfg
          (scripted offline challenge_ok (Inl (Thrown ''no key'')) tokens_ok offline)
          (fresh JNull JNull held)) = Inl (Thrown ''no key'') \<and>
   (\<exists>e. fst (ensureAccessToken demo_cfg
          (scripted offline challenge_ok (Inl (Thrown ''no key'')) tokens_ok offline)
          (fresh JNull JNull held)) = Inl e)"
  using full_authentication_failure
    [of "fresh JNull JNull held" "fresh JNull JNull held" demo_cfg
        "scripted offline challenge_ok (Inl (Thrown ''no key'')) tokens_ok offline"]
  by (simp add: scenario_defs authenticate_def sign_and_exchange_def do_fetch_def do_sign_def)

section \<open>Refresh\<close>

lemma refresh_catch_run:
  "refresh_catch env s =
     (case storage s of
        None \<Rightarrow> (Inr (), s\<lparr>refreshToken := JNull\<rparr>)
      | Some m \<Rightarrow>
         (case adapter_delete env ''refresh_token'' m (world s) of
            (d, m', w') \<Rightarrow>
              (d, s\<lparr>refreshToken := JNull, storage := Some m', world := w',
                     trace := trace s @ [StorageDelete ''refresh_token'']\<rparr>)))"
  by (simp add: refresh_catch_def storage_delete_def split: option.splits prod.splits)

lemma refresh_run:
  assumes "truthy (refreshToken s)" and "\<not> no_baseUrl cfg"
    and "fetch env (refresh_request cfg (refreshToken s)) (world s) = (Inr r, w1)" and "ok r"
  shows "refreshAccessToken cfg env s =
           refresh_ok env r
             (s\<lparr>world := w1, trace := trace s @ [Fetch (refresh_request cfg (refreshToken s))]\<rparr>)"
  using assms by (simp add: refreshAccessToken_def do_fetch_def)

text \<open>
  Claim C1 does not hold of the code on a non-success status. \<open>AgentRuntime.load\<close> on a
  storage holding \<open>refresh_token = RT0\<close>, with a transport that answers
  \<open>POST /auth/refresh\<close> with \<open>ok = false\<close>: the \<open>if (response.ok)\<close> block is skipped, nothing
  is thrown, and the refresh token stays in memory and in the storage. Only the \<open>catch\<close>
  path clears them, as the same load does when the transport throws.
\<close>

theorem load_refresh_rejected_keeps_token:
  "fst (load demo_cfg (scripted unauthorized challenge_ok (Inr ''sig'') tokens_ok offline) held 0)
     = Inr () \<and>
   refreshToken (snd (load demo_cfg
       (scripted unauthorized challenge_ok (Inr ''sig'') tokens_ok offline) held 0))
     = JString ''RT0'' \<and>
   stored (snd (load demo_cfg
       (scripted unauthorized challenge_ok (Inr ''sig'') tokens_ok offline) held 0))
     ''refresh_token'' = Some (JString ''RT0'') \<and>
   fst (load demo_cfg (scripted offline challenge_ok (Inr ''sig'') tokens_ok offline) held 0)
     = Inr () \<and>
   refreshToken (snd (load demo_cfg
       (scripted offline challenge_ok (Inr ''sig'') tokens_ok offline) held 0))
     = JNull \<and>
   stored (snd (load demo_cfg
       (scripted offline challenge_ok (Inr ''sig'') tokens_ok offline) held 0))
     ''refresh_token'' = None"
  by (simp add: scenario_defs run_defs)

text \<open>
  Claim C2, as stated for every failing refresh, fails: when the refresh request is
  thrown by the transport, the \<open>catch\<close> block awaits the adapter's \<open>delete\<close>, and when that
  rejects nothing catches it. \<open>ensureAccessToken\<close> then fails with the adapter's error and
  never reaches the challenge: the trace holds the refresh request and the \<open>delete\<close> only.
\<close>

theorem refresh_failure_surfaced_counterexample:
  "\<not> truthy (accessToken (fresh JNull (JString ''RT0'') held)) \<and>
   truthy (refreshToken (fresh JNull (JString ''RT0'') held)) \<and>
   fst (ensureAccessToken demo_cfg
          (rejecting (scripted offline challenge_ok (Inr ''sig'') tokens_ok offline))
          (fresh JNull (JString ''RT0'') held)) = Inl (Thrown ''disk full'') \<and>
   trace (snd (ensureAccessToken demo_cfg
          (rejecting (scripted offline challenge_ok (Inr ''sig'') tokens_ok offline))
          (fresh JNull (JString ''RT0'') held)))
     = [Fetch (refresh_request demo_cfg (JString ''RT0'')), StorageDelete ''refresh_token'']"
  by (simp add: scenario_defs run_defs)

text \<open>
  Claim C2, amended. Take a call of \<open>ensureAccessToken\<close> with no cached access token and a
  held refresh token whose refresh request fails, and let \<open>s1\<close> be the state after that
  request. If the request was answered with a non-success status, the call goes on to the
  challenge flow in \<open>s1\<close>. If the request was thrown by the transport, the refresh token is
  cleared and, when an adapter is configured, its \<open>delete(''refresh_token'')\<close> is awaited:
  without an adapter, or when the \<open>delete\<close> resolves, the call goes on to the challenge
  flow; when the \<open>delete\<close> rejects, the call fails with that error, without a challenge.
  The challenge flow fails exactly as \<open>authenticate\<close> does, and when it succeeds it returns
  the access token that \<open>authenticate\<close> stored, which is the \<open>accessToken\<close> property of the
  body of the exchange response (as \<open>x ?? ''''\<close> returns it).
\<close>

theorem refresh_failure_falls_through:
  assumes "\<not> truthy (accessToken s)" and "truthy (refreshToken s)" and "\<not> no_baseUrl cfg"
    and "fetch env (refresh_request cfg (refreshToken s)) (world s) = (rf, w)"
    and "case rf of Inl e \<Rightarrow> True | Inr r \<Rightarrow> \<not> ok r"
    and "s1 = s\<lparr>world := w, trace := trace s @ [Fetch (refresh_request cfg (refreshToken s))]\<rparr>"
  shows "ensureAccessToken cfg env s =
           (case rf of
              Inr r \<Rightarrow> challenge_flow cfg env s1
            | Inl e \<Rightarrow>
               (case storage s of
                  None \<Rightarrow> challenge_flow cfg env (s1\<lparr>refreshToken := JNull\<rparr>)
                | Some m \<Rightarrow>
                   (case adapter_delete env ''refresh_token'' m w of
                      (Inr u, m', w') \<Rightarrow>
                        challenge_flow cfg env
                          (s1\<lparr>refreshToken := JNull, storage := Some m', world := w',
                              trace := trace s1 @ [StorageDelete ''refresh_token'']\<rparr>)
                    | (Inl e', m', w') \<Rightarrow>
                        (Inl e', s1\<lparr>refreshToken := JNull, storage := Some m', world := w',
                                    trace := trace s1 @ [StorageDelete ''refresh_token'']\<rparr>)))) \<and>
         (\<forall>t e s2. challenge_flow cfg env t = (Inl e, s2) \<longleftrightarrow> authenticate cfg env t = (Inl e, s2)) \<and>
         (\<forall>t v s2. challenge_flow cfg env t = (Inr v, s2) \<longrightarrow>
            authenticate cfg env t = (Inr (), s2) \<and>
            v = nullish (accessToken s2) (JString []) \<and>
            (\<exists>cid sg w2 tr w3 tk.
               fetch env (exchange_request cfg cid sg) w2 = (Inr tr, w3) \<and> ok tr \<and>
               json tr = Some tk \<and> get_prop tk ''accessToken'' = Inr (accessToken s2)))"
proof -
  have a: "ensureAccessToken cfg env s =
           (case rf of
              Inr r \<Rightarrow> challenge_flow cfg env s1
            | Inl e \<Rightarrow>
               (case storage s of
                  None \<Rightarrow> challenge_flow cfg env (s1\<lparr>refreshToken := JNull\<rparr>)
                | Some m \<Rightarrow>
                   (case adapter_delete env ''refresh_token'' m w of
                      (Inr u, m', w') \<Rightarrow>
                        challenge_flow cfg env
                          (s1\<lparr>refreshToken := JNull, storage := Some m', world := w',
                              trace := trace s1 @ [StorageDelete ''refresh_token'']\<rparr>)
                    | (Inl e', m', w') \<Rightarrow>
                        (Inl e', s1\<lparr>refreshToken := JNull, storage := Some m', world := w',
                                    trace := trace s1 @ [StorageDelete ''refresh_token'']\<rparr>))))"
    using assms
    by (auto simp: ensureAccessToken_def refreshAccessToken_def do_fetch_def refresh_catch_run
             split: sum.splits option.splits prod.splits)
  have b: "\<forall>t e s2. challenge_flow cfg env t = (Inl e, s2) \<longleftrightarrow> authenticate cfg env t = (Inl e, s2)"
    by (auto simp: challenge_flow_def split: prod.splits sum.splits)
  have c: "\<forall>t v s2. challenge_flow cfg env t = (Inr v, s2) \<longrightarrow>
            authenticate cfg env t = (Inr (), s2) \<and>
            v = nullish (accessToken s2) (JString []) \<and>
            (\<exists>cid sg w2 tr w3 tk.
               fetch env (exchange_request cfg cid sg) w2 = (Inr tr, w3) \<and> ok tr \<and>
               json tr = Some tk \<and> get_prop tk ''accessToken'' = Inr (accessToken s2))"
  proof (intro allI impI)
    fix t v s2
    assume "challenge_flow cfg env t = (Inr v, s2)"
    then have au: "authenticate cfg env t = (Inr (), s2)"
      and v: "v = nullish (accessToken s2) (JString [])"
      by (auto simp: challenge_flow_def split: prod.splits sum.splits)
    from authenticate_Inr [OF au] have "\<exists>cid sg w2 tr w3 tk.
               fetch env (exchange_request cfg cid sg) w2 = (Inr tr, w3) \<and> ok tr \<and>
               json tr = Some tk \<and> get_prop tk ''accessToken'' = Inr (accessToken s2)"
      by blast
    with au v show "authenticate cfg env t = (Inr (), s2) \<and>
            v = nullish (accessToken s2) (JString []) \<and>
            (\<exists>cid sg w2 tr w3 tk.
               fetch env (exchange_request cfg cid sg) w2 = (Inr tr, w3) \<and> ok tr \<and>
               json tr = Some tk \<and> get_prop tk ''accessToken'' = Inr (accessToken s2))"
      by simp
  qed
  show ?thesis by (rule conjI [OF a conjI [OF b c]])
qed

theorem refresh_failure_falls_through_witness:
  "\<not> truthy (accessToken (fresh JNull (JString ''RT0'') held)) \<and>
   truthy (refreshToken (fresh JNull (JString ''RT0'') held)) \<and>
   fst (ensureAccessToken demo_cfg (scripted offline challenge_ok (Inr ''sig'') tokens_ok offline)
          (fresh JNull (JString ''RT0'') held)) = Inr (JString ''AT1'') \<and>
   fst (ensureAccessToken demo_cfg (scripted unauthorized challenge_ok (Inr ''sig'') tokens_ok offline)
          (fresh JNull (JString ''RT0'') held)) = Inr (JString ''AT1'') \<and>
   fst (ensureAccessToken demo_cfg
          (rejecting (scripted offline challenge_ok (Inr ''sig'') tokens_ok offline))
          (fresh JNull (JString ''RT0'') held)) = Inl (Thrown ''disk full'')"
  using
    refresh_failure_falls_through
      [where s = "fresh JNull (JString ''RT0'') held" and cfg = demo_cfg
         and env = "scripted offline challenge_ok (Inr ''sig'') tokens_ok offline"
         and rf = offline and w = 1
         and ?s1.0 = "(fresh JNull (JString ''RT0'') held)
                        \<lparr>world := 1, trace := [Fetch (refresh_request demo_cfg (JString ''RT0''))]\<rparr>",
       THEN conjunct1]
    refresh_failure_falls_through
      [where s = "fresh JNull (JString ''RT0'') held" and cfg = demo_cfg
         and env = "scripted unauthorized challenge_ok (Inr ''sig'') tokens_ok offline"
         and rf = unauthorized and w = 1
         and ?s1.0 = "(fresh JNull (JString ''RT0'') held)
                        \<lparr>world := 1, trace := [Fetch (refresh_request demo_cfg (JString ''RT0''))]\<rparr>",
       THEN conjunct1]
    refresh_failure_falls_through
      [where s = "fresh JNull (JString ''RT0'') held" and cfg = demo_cfg
         and env = "rejecting (scripted offline challenge_ok (Inr ''sig'') tokens_ok offline)"
         and rf = offline and w = 1
         and ?s1.0 = "(fresh JNull (JString ''RT0'') held)
                        \<lparr>world := 1, trace := [Fetch (refresh_request demo_cfg (JString ''RT0''))]\<rparr>",
       THEN conjunct1]
  by (simp add: scenario_defs run_defs)

text \<open>
  Claim C7, as stated for every exchange with a success status, fails: a response with
  \<open>ok = true\<close> whose body is not JSON makes \<open>response.json()\<close> reject inside the \<open>try\<close>,
  and the \<open>catch\<close> block clears the held refresh token and deletes the storage entry,
  although no rotated token was received. The access token is not replaced either.
\<close>

theorem refresh_garbled_counterexample:
  "refreshToken (fresh JNull (JString ''RT0'') held) = JString ''RT0'' \<and>
   stored (fresh JNull (JString ''RT0'') held) ''refresh_token'' = Some (JString ''RT0'') \<and>
   refreshToken (snd (refreshAccessToken demo_cfg
      (scripted garbled challenge_ok (Inr ''sig'') tokens_ok offline)
      (fresh JNull (JString ''RT0'') held))) = JNull \<and>
   stored (snd (refreshAccessToken demo_cfg
      (scripted garbled challenge_ok (Inr ''sig'') tokens_ok offline)
      (fresh JNull (JString ''RT0'') held))) ''refresh_token'' = None \<and>
   accessToken (snd (refreshAccessToken demo_cfg
      (scripted garbled challenge_ok (Inr ''sig'') tokens_ok offline)
      (fresh JNull (JString ''RT0'') held))) = JNull"
  by (simp add: scenario_defs run_defs)

text \<open>
  Claim C7, amended. Take a refresh exchange answered with a success status, and let \<open>s1\<close>
  be the state after the request. When the body parses to a JSON value other than \<open>null\<close>,
  the access token becomes the body's \<open>accessToken\<close> property. If the body's
  \<open>refreshToken\<close> property is not truthy, nothing else changes: the held refresh token and
  the storage are as before. If it is truthy, the held refresh token becomes that value;
  without an adapter that is all; with an adapter its \<open>set(''refresh_token'', \<dots>)\<close> is
  awaited, and when it resolves the token is persisted, while when it rejects the \<open>catch\<close>
  block runs: the refresh token is cleared and \<open>delete(''refresh_token'')\<close> is awaited,
  whose outcome is the outcome of the refresh. When the body is not JSON or is \<open>null\<close>, the
  \<open>catch\<close> block runs at once: the access token is not replaced, the refresh token is
  cleared and, with an adapter, \<open>delete(''refresh_token'')\<close> is awaited, whose outcome is
  the outcome of the refresh.
\<close>

theorem refresh_success_effect:
  assumes "truthy (refreshToken s)" and "\<not> no_baseUrl cfg"
    and "fetch env (refresh_request cfg (refreshToken s)) (world s) = (Inr r, w1)" and "ok r"
    and "s1 = s\<lparr>world := w1, trace := trace s @ [Fetch (refresh_request cfg (refreshToken s))]\<rparr>"
  shows "(\<forall>tk at rt.
            json r = Some tk \<and> get_prop tk ''accessToken'' = Inr at \<and>
            get_prop tk ''refreshToken'' = Inr rt \<longrightarrow>
            (if \<not> truthy rt then refreshAccessToken cfg env s = (Inr (), s1\<lparr>accessToken := at\<rparr>)
             else
              (case storage s of
                 None \<Rightarrow>
                   refreshAccessToken cfg env s =
                     (Inr (), s1\<lparr>accessToken := at, refreshToken := rt\<rparr>)
               | Some m \<Rightarrow>
                  (case adapter_set env ''refresh_token'' rt m w1 of
                     (Inr u, m', w2) \<Rightarrow>
                       refreshAccessToken cfg env s =
                         (Inr (), s1\<lparr>accessToken := at, refreshToken := rt, storage := Some m',
                                     world := w2,
                                     trace := trace s1 @ [StorageSet ''refresh_token'' rt]\<rparr>)
                   | (Inl e, m', w2) \<Rightarrow>
                      (case adapter_delete env ''refresh_token'' m' w2 of
                         (d, m'', w3) \<Rightarrow>
                           refreshAccessToken cfg env s =
                             (d, s1\<lparr>accessToken := at, refreshToken := JNull,
                                    storage := Some m'', world := w3,
                                    trace := trace s1 @ [StorageSet ''refresh_token'' rt,
                                                         StorageDelete ''refresh_token'']\<rparr>)))))) \<and>
         (json r = None \<or> json r = Some JNull \<or> json r = Some JUndefined \<longrightarrow>
            (case storage s of
               None \<Rightarrow> refreshAccessToken cfg env s = (Inr (), s1\<lparr>refreshToken := JNull\<rparr>)
             | Some m \<Rightarrow>
                (case adapter_delete env ''refresh_token'' m w1 of
                   (d, m', w2) \<Rightarrow>
                     refreshAccessToken cfg env s =
                       (d, s1\<lparr>refreshToken := JNull, storage := Some m', world := w2,
                              trace := trace s1 @ [StorageDelete ''refresh_token'']\<rparr>))))"
  unfolding refresh_run [OF assms(1-4)] assms(5)
  by (auto simp: refresh_ok_def refresh_catch_run storage_set_def
           split: option.splits prod.splits sum.splits)


theorem refresh_success_effect_witness:
  "refreshAccessToken demo_cfg (scripted tokens_ok challenge_ok (Inr ''sig'') tokens_ok offline)
     (fresh JNull (JString ''RT0'') held)
   = (Inr (), \<lparr>accessToken = JString ''AT1'', refreshToken = JString ''RT1'',
               storage = Some [''refresh_token'' \<mapsto> JString ''RT1''], world = 1,
               trace = [Fetch (refresh_request demo_cfg (JString ''RT0'')),
                        StorageSet ''refresh_token'' (JString ''RT1'')]\<rparr>) \<and>
   refreshAccessToken demo_cfg (scripted access_only challenge_ok (Inr ''sig'') tokens_ok offline)
     (fresh JNull (JString ''RT0'') held)
   = (Inr (), \<lparr>accessToken = JString ''AT2'', refreshToken = JString ''RT0'',
               storage = Some [''refresh_token'' \<mapsto> JString ''RT0''], world = 1,
               trace = [Fetch (refresh_request demo_cfg (JString ''RT0''))]\<rparr>) \<and>
   refreshAccessToken demo_cfg (scripted null_body challenge_ok (Inr ''sig'') tokens_ok offline)
     (fresh JNull (JString ''RT0'') held)
   = (Inr (), \<lparr>accessToken = JNull, refreshToken = JNull,
               storage = Some Map.empty, world = 1,
               trace = [Fetch (refresh_request demo_cfg (JString ''RT0'')),
                        StorageDelete ''refresh_token'']\<rparr>) \<and>
   refreshAccessToken demo_cfg
     (rejecting (scripted tokens_ok challenge_ok (Inr ''sig'') tokens_ok offline))
     (fresh JNull (JString ''RT0'') held)
   = (Inl (Thrown ''disk full''),
      \<lparr>accessToken = JString ''AT1'', refreshToken = JNull,
        storage = Some [''refresh_token'' \<mapsto> JString ''RT0''], world = 1,
        trace = [Fetch (refresh_request demo_cfg (JString ''RT0'')),
                 StorageSet ''refresh_token'' (JString ''RT1''),
                 StorageDelete ''refresh_token'']\<rparr>)"
  using
    refresh_success_effect
      [where s = "fresh JNull (JString ''RT0'') held" and cfg = demo_cfg
         and env = "scripted tokens_ok challenge_ok (Inr ''sig'') tokens_ok offline"
         and r = "\<lparr>ok = True, statusText = ''OK'',
                   json = Some (JObject [(''accessToken'', JString ''AT1''),
                                         (''refreshToken'', JString ''RT1'')])\<rparr>"
         and ?w1.0 = 1
         and ?s1.0 = "(fresh JNull (JString ''RT0'') held)
                        \<lparr>world := 1, trace := [Fetch (refresh_request demo_cfg (JString ''RT0''))]\<rparr>",
       THEN conjunct1, rule_format,
       of "JObject [(''accessToken'', JString ''AT1''), (''refreshToken'', JString ''RT1'')]"
          "JString ''AT1''" "JString ''RT1''"]
    refresh_success_effect
      [where s = "fresh JNull (JString ''RT0'') held" and cfg = demo_cfg
         and env = "scripted access_only challenge_ok (Inr ''sig'') tokens_ok offline"
         and r = "\<lparr>ok = True, statusText = ''OK'',
                   json = Some (JObject [(''accessToken'', JString ''AT2'')])\<rparr>"
         and ?w1.0 = 1
         and ?s1.0 = "(fresh JNull (JString ''RT0'') held)
                        \<lparr>world := 1, trace := [Fetch (refresh_request demo_cfg (JString ''RT0''))]\<rparr>",
       THEN conjunct1, rule_format,
       of "JObject [(''accessToken'', JString ''AT2'')]" "JString ''AT2''" JUndefined]
    refresh_success_effect
      [where s = "fresh JNull (JString ''RT0'') held" and cfg = demo_cfg
         and env = "scripted null_body challenge_ok (Inr ''sig'') tokens_ok offline"
         and r = "\<lparr>ok = True, statusText = ''OK'', json = Some JNull\<rparr>"
         and ?w1.0 = 1
         and ?s1.0 = "(fresh JNull (JString ''RT0'') held)
                        \<lparr>world := 1, trace := [Fetch (refresh_request demo_cfg (JString ''RT0''))]\<rparr>",
       THEN conjunct2]
    refresh_success_effect
      [where s = "fresh JNull (JString ''RT0'') held" and cfg = demo_cfg
         and env = "rejecting (scripted tokens_ok challenge_ok (Inr ''sig'') tokens_ok offline)"
         and r = "\<lparr>ok = True, statusText = ''OK'',
                   json = Some (JObject [(''accessToken'', JString ''AT1''),
                                         (''refreshToken'', JString ''RT1'')])\<rparr>"
         and ?w1.0 = 1
         and ?s1.0 = "(fresh JNull (JString ''RT0'') held)
                        \<lparr>world := 1, trace := [Fetch (refresh_request demo_cfg (JString ''RT0''))]\<rparr>",
       THEN conjunct1, rule_format,
       of "JObject [(''accessToken'', JString ''AT1''), (''refreshToken'', JString ''RT1'')]"
          "JString ''AT1''" "JString ''RT1''"]
  by (simp add: scenario_defs)

section \<open>The domain operations\<close>

lemma getAgent_template:
  "follows_template cfg env ''/agents/me'' ''Failed to get agent: '' s (getAgent cfg env s)"
  by (auto simp: follows_template_def getAgent_def do_fetch_def read_json_def bearer_def
           split: prod.splits sum.splits option.splits)

lemma signTypedData_template:
  "follows_template cfg env ''/wallet/sign-typed-data'' ''Failed to sign typed data: '' s
     (signTypedData cfg env params s)"
  by (auto simp: follows_template_def signTypedData_def do_fetch_def read_json_def bearer_def
           split: prod.splits sum.splits option.splits)

lemma signMessage_template:
  "follows_template cfg env ''/wallet/sign-message'' ''Failed to sign message: '' s
     (signMessage cfg env params s)"
  by (auto simp: follows_template_def signMessage_def do_fetch_def read_json_def bearer_def
           split: prod.splits sum.splits option.splits)

lemma listAgents_template:
  "follows_template cfg env ''/agents'' ''Failed to list agents: '' s (listAgents cfg env s)"
  by (auto simp: follows_template_def listAgents_def do_fetch_def read_json_def bearer_def
           split: prod.splits sum.splits option.splits)

text \<open>
  Claim C9. Each of \<open>getAgent\<close>, \<open>signTypedData\<close>, \<open>signMessage\<close> and \<open>listAgents\<close> follows the
  template: it first runs \<open>ensureAccessToken\<close> (and fails with its error, without any
  request, when that fails); it then adds exactly one request to the trace, to its own
  path, carrying the header \<open>Authorization: Bearer\<close> and the token; whatever the response,
  no second request follows, so nothing is retried; a response that is not \<open>ok\<close> (a 401
  among them) is thrown as an \<open>Error\<close> (the API error of the specification) whose message
  ends in the status text.
\<close>

theorem api_operations_follow_template:
  "follows_template cfg env ''/agents/me'' ''Failed to get agent: '' s (getAgent cfg env s) \<and>
   follows_template cfg env ''/wallet/sign-typed-data'' ''Failed to sign typed data: '' s
     (signTypedData cfg env typed s) \<and>
   follows_template cfg env ''/wallet/sign-message'' ''Failed to sign message: '' s
     (signMessage cfg env message s) \<and>
   follows_template cfg env ''/agents'' ''Failed to list agents: '' s (listAgents cfg env s)"
  using getAgent_template signTypedData_template signMessage_template listAgents_template
  by blast

theorem api_operations_follow_template_witness:
  "getAgent demo_cfg (scripted offline challenge_ok (Inr ''sig'') tokens_ok unauthorized)
     (fresh (JString ''AT1'') JNull None)
   = (Inl (Error ''Failed to get agent: Unauthorized''),
      (fresh (JString ''AT1'') JNull None)
        \<lparr>world := 1,
         trace := [Fetch \<lparr>url = ''https://api.example.com/agents/me'', http_method = None,
                          headers = [(''Authorization'', ''Bearer AT1'')], body = None\<rparr>]\<rparr>) \<and>
   follows_template demo_cfg (scripted offline challenge_ok (Inr ''sig'') tokens_ok unauthorized)
     ''/agents/me'' ''Failed to get agent: '' (fresh (JString ''AT1'') JNull None)
     (Inl (Error ''Failed to get agent: Unauthorized''),
      (fresh (JString ''AT1'') JNull None)
        \<lparr>world := 1,
         trace := [Fetch \<lparr>url = ''https://api.example.com/agents/me'', http_method = None,
                          headers = [(''Authorization'', ''Bearer AT1'')], body = None\<rparr>]\<rparr>)"
  using api_operations_follow_template
    [of demo_cfg "scripted offline challenge_ok (Inr ''sig'') tokens_ok unauthorized"
        "fresh (JString ''AT1'') JNull None" JNull JNull]
  by (simp add: scenario_defs run_defs getAgent_def bearer_def)

end
